theory Spec2Isabelle
  imports Main "HOL-Library.Word" "HOL-Library.List_Lexorder" "HOL-Library.Sublist"
begin

section \<open>Strings and containers of the source language\<close>

text \<open>
  A TypeScript string is a sequence of UTF-16 code units. Equality, \<open>endsWith\<close>,
  \<open>slice\<close>, the default \<open>sort\<close> and \<open>Set\<close> membership all work on code units, so a
  string is a list of 16-bit words. \<open>str\<close> embeds an ASCII literal; the negation sign
  U+00AC and the letter U+00C2 are written as the code units \<open>0xAC\<close> and \<open>0xC2\<close>.
  The order on lists (\<open>List_Lexorder\<close>) is the lexicographic one on code units, which is
  the order the default comparator of \<open>Array.prototype.sort\<close> uses on strings.
\<close>

type_synonym code_unit = "16 word"
type_synonym js_string = "code_unit list"

definition str :: "string \<Rightarrow> js_string" where
  "str s = map of_char s"

text \<open>\<open>Array.prototype.join\<close>: the elements with the separator between neighbours.\<close>

fun js_join :: "js_string \<Rightarrow> js_string list \<Rightarrow> js_string" where
  "js_join sep [] = []"
| "js_join sep [x] = x"
| "js_join sep (x # y # ys) = x @ sep @ js_join sep (y # ys)"

text \<open>
  A \<open>Set\<close> of strings iterates in insertion order, and \<open>add\<close> of a member already
  present changes nothing: the set is the list of its members in insertion order.
\<close>

definition setAdd :: "'a list \<Rightarrow> 'a \<Rightarrow> 'a list" where
  "setAdd s x = (if x \<in> set s then s else s @ [x])"

text \<open>\<open>String.prototype.endsWith\<close>.\<close>

definition endsWith :: "js_string \<Rightarrow> js_string \<Rightarrow> bool" where
  "endsWith s p = (length p \<le> length s \<and> drop (length s - length p) s = p)"

text \<open>
  \<open>String.prototype.slice(start, end)\<close>: a negative index counts from the end of the
  string, both indices are clamped to the string, and the result is empty when the end
  does not lie behind the start.
\<close>

definition js_slice :: "js_string \<Rightarrow> int \<Rightarrow> int \<Rightarrow> js_string" where
  "js_slice s start fin =
     (let n = int (length s);
          from = (if start < 0 then max (n + start) 0 else min start n);
          to = (if fin < 0 then max (n + fin) 0 else min fin n)
      in take (nat (to - from)) (drop (nat from) s))"

section \<open>The data model (types.ts)\<close>

text \<open>
  \<open>ComparisonOperator\<close> is the union of six string literals; \<open>opText\<close> gives the string
  each value is.
\<close>

datatype ComparisonOperator = OpEq | OpNe | OpLe | OpGe | OpLt | OpGt

fun opText :: "ComparisonOperator \<Rightarrow> js_string" where
  "opText OpEq = str ''==''"
| "opText OpNe = str ''<>''"
| "opText OpLe = str ''<=''"
| "opText OpGe = str ''>=''"
| "opText OpLt = str ''<''"
| "opText OpGt = str ''>''"

record TupleReference =
  tupleId :: js_string
  tableName :: js_string
  columnName :: js_string

record Predicate =
  left :: TupleReference
  operator :: ComparisonOperator
  right :: TupleReference

record DenialConstraint =
  predicates :: "Predicate list"

record SQLQuery =
  selectColumns :: "js_string list"
  fromClause :: js_string
  whereConditions :: "js_string list"

text \<open>
  Every field of \<open>TranspilerOptions\<close> is optional: \<open>None\<close> is a field that is not given.
  A field that is present and explicitly \<open>undefined\<close> is not modelled.
\<close>

record TranspilerOptions =
  selectAllColumns :: "bool option"
  formatOutput :: "bool option"
  includeComments :: "bool option"

text \<open>The truth value of an optional boolean in a condition: \<open>undefined\<close> is falsy.\<close>

fun truthy :: "bool option \<Rightarrow> bool" where
  "truthy None = False"
| "truthy (Some b) = b"

text \<open>
  The errors of the source. \<open>parse\<close> and \<open>validate\<close> throw plain \<open>Error\<close> objects that
  differ in their messages; the constructor says which operation threw
  (\<open>SyntaxError\<close>: the \<open>Parse error: ...\<close> of \<open>parse\<close>, whose text comes from the parsing
  library; \<open>WellFormednessError\<close>: one of the two messages of \<open>validate\<close>, carried as
  the argument). \<open>TypeError\<close> is the runtime error of reading a property of
  \<open>undefined\<close>.
\<close>

datatype error = SyntaxError | WellFormednessError js_string | TypeError

section \<open>The transpiler (transpiler.ts)\<close>

text \<open>
  The constructor of \<open>DCTranspiler\<close>: the defaults, overridden by the fields given.
  The object is its options, which every method reads through \<open>this\<close>.
\<close>

definition DCTranspiler :: "TranspilerOptions \<Rightarrow> TranspilerOptions" where
  "DCTranspiler options =
     \<lparr> selectAllColumns = (case selectAllColumns options of None \<Rightarrow> Some False | Some b \<Rightarrow> Some b),
       formatOutput = (case formatOutput options of None \<Rightarrow> Some True | Some b \<Rightarrow> Some b),
       includeComments = (case includeComments options of None \<Rightarrow> Some False | Some b \<Rightarrow> Some b) \<rparr>"

text \<open>The options object \<open>{}\<close>, the default argument of the constructor.\<close>

definition noOptions :: TranspilerOptions where
  "noOptions = \<lparr> selectAllColumns = None, formatOutput = None, includeComments = None \<rparr>"

text \<open>
  \<open>dc.predicates[0].left.tableName\<close>: on an empty array \<open>predicates[0]\<close> is
  \<open>undefined\<close>, and reading \<open>left\<close> of it throws a \<open>TypeError\<close>.
\<close>

definition extractTableName :: "DenialConstraint \<Rightarrow> error + js_string" where
  "extractTableName dc =
     (case predicates dc of
        [] \<Rightarrow> Inl TypeError
      | p # _ \<Rightarrow> Inr (tableName (left p)))"

definition extractTupleAliases :: "DenialConstraint \<Rightarrow> js_string list" where
  "extractTupleAliases dc =
     (let aliases = foldl (\<lambda>aliases pred.
            setAdd (setAdd aliases (tupleId (left pred))) (tupleId (right pred)))
          [] (predicates dc)
      in sort aliases)"

definition buildSelectColumns :: "DenialConstraint \<Rightarrow> js_string list \<Rightarrow> js_string list" where
  "buildSelectColumns dc tupleAliases =
     (let columns = foldl (\<lambda>columns pred.
            setAdd (setAdd columns (columnName (left pred))) (columnName (right pred)))
          [] (predicates dc)
      in foldl (\<lambda>selectColumns alias.
            foldl (\<lambda>selectColumns col. selectColumns @ [alias @ str ''.'' @ col])
              selectColumns columns)
          [] tupleAliases)"

text \<open>The regular expression \<open>/[.-]/\<close> matches a string that has a dot or a hyphen.\<close>

definition hasSpecialChar :: "js_string \<Rightarrow> bool" where
  "hasSpecialChar s = (\<exists>c \<in> set s. c = 0x2E \<or> c = 0x2D)"

definition cleanTableName :: "js_string \<Rightarrow> js_string" where
  "cleanTableName tn =
     (let cleaned = tn;
          cleaned = (if endsWith cleaned (str ''.csv'') then js_slice cleaned 0 (- 4) else cleaned);
          cleaned = (if hasSpecialChar cleaned then [0x22] @ cleaned @ [0x22] else cleaned)
      in cleaned)"

definition buildFromClause :: "js_string \<Rightarrow> js_string list \<Rightarrow> js_string" where
  "buildFromClause tn tupleAliases =
     (let cleanTN = cleanTableName tn
      in js_join (str '', '') (map (\<lambda>alias. cleanTN @ str '' '' @ alias) tupleAliases))"

fun convertOperator :: "ComparisonOperator \<Rightarrow> js_string" where
  "convertOperator OpEq = str ''=''"
| "convertOperator OpNe = str ''!=''"
| "convertOperator OpLe = str ''<=''"
| "convertOperator OpGe = str ''>=''"
| "convertOperator OpLt = str ''<''"
| "convertOperator OpGt = str ''>''"

definition predicateToSQL :: "Predicate \<Rightarrow> js_string" where
  "predicateToSQL pred =
     (let leftSide = tupleId (left pred) @ str ''.'' @ columnName (left pred);
          rightSide = tupleId (right pred) @ str ''.'' @ columnName (right pred);
          sqlOperator = convertOperator (operator pred)
      in leftSide @ str '' '' @ sqlOperator @ str '' '' @ rightSide)"

definition buildWhereConditions :: "DenialConstraint \<Rightarrow> js_string list" where
  "buildWhereConditions dc = map predicateToSQL (predicates dc)"

definition buildSQLQuery :: "TranspilerOptions \<Rightarrow> DenialConstraint \<Rightarrow> error + SQLQuery" where
  "buildSQLQuery this dc =
     (case extractTableName dc of
        Inl e \<Rightarrow> Inl e
      | Inr tn \<Rightarrow>
          (let tupleAliases = extractTupleAliases dc;
               selectCols = (if truthy (selectAllColumns this)
                             then map (\<lambda>alias. alias @ str ''.*'') tupleAliases
                             else buildSelectColumns dc tupleAliases);
               fromCl = buildFromClause tn tupleAliases;
               whereConds = buildWhereConditions dc
           in Inr \<lparr> selectColumns = selectCols, fromClause = fromCl,
                    whereConditions = whereConds \<rparr>))"

text \<open>
  The comment line of \<open>formatSQL\<close>. The string literal of the source between
  \<open>Generated from: \<close> and the parenthesis is the two code units U+00C2 U+00AC.
\<close>

definition commentPredicate :: "Predicate \<Rightarrow> js_string" where
  "commentPredicate p =
     tupleId (left p) @ str ''.'' @ columnName (left p) @ str '' '' @ opText (operator p)
       @ str '' '' @ tupleId (right p) @ str ''.'' @ columnName (right p)"

definition commentLines :: "DenialConstraint \<Rightarrow> js_string list" where
  "commentLines dc =
     [ str ''-- Denial Constraint Violation Query'',
       str ''-- Generated from: '' @ [0xC2, 0xAC] @ str ''(''
         @ js_join (str '' ^ '') (map commentPredicate (predicates dc)) @ str '')'',
       [] ]"

definition formatSQL :: "TranspilerOptions \<Rightarrow> SQLQuery \<Rightarrow> DenialConstraint \<Rightarrow> js_string" where
  "formatSQL this sqlQuery dc =
     (let lines = [];
          lines = (if truthy (includeComments this) then lines @ commentLines dc else lines);
          lines =
            (if truthy (formatOutput this)
             then lines @
               [ str ''SELECT'',
                 str ''  '' @ js_join ([0x2C, 0x0A] @ str ''  '') (selectColumns sqlQuery),
                 str ''FROM'',
                 str ''  '' @ fromClause sqlQuery,
                 str ''WHERE'',
                 str ''  '' @ js_join ([0x0A] @ str ''  AND '') (whereConditions sqlQuery),
                 str '';'' ]
             else lines @
               [ str ''SELECT '' @ js_join (str '', '') (selectColumns sqlQuery) @ str '' ''
                 @ str ''FROM '' @ fromClause sqlQuery @ str '' ''
                 @ str ''WHERE '' @ js_join (str '' AND '') (whereConditions sqlQuery)
                 @ str '';'' ])
      in js_join [0x0A] lines)"

definition transpile :: "TranspilerOptions \<Rightarrow> DenialConstraint \<Rightarrow> error + js_string" where
  "transpile this dc =
     (case buildSQLQuery this dc of
        Inl e \<Rightarrow> Inl e
      | Inr sqlQuery \<Rightarrow> Inr (formatSQL this sqlQuery dc))"

section \<open>The parser (parser.ts)\<close>

subsection \<open>validate\<close>

text \<open>
  \<open>predicates\<close> has the type \<open>Predicate[]\<close>, so the test \<open>!dc.predicates\<close> is false and
  the first condition is the test of the length.
\<close>

definition validate :: "DenialConstraint \<Rightarrow> error + bool" where
  "validate dc =
     (if length (predicates dc) = 0
      then Inl (WellFormednessError (str ''Denial constraint must have at least one predicate''))
      else
        (let tableNames = foldl (\<lambda>tableNames pred.
               setAdd (setAdd tableNames (tableName (left pred))) (tableName (right pred)))
             [] (predicates dc)
         in if length tableNames \<noteq> 1
            then Inl (WellFormednessError (str ''All predicates must reference the same table''))
            else Inr True))"

subsection \<open>parse\<close>

text \<open>
  Modelled from the spec: the grammar of the file \<open>grammar.ohm\<close>, which is not among
  the sources. \<open>parse\<close> matches the input against that grammar and builds the
  constraint from the match with the semantic actions of \<open>createSemantics\<close>, which
  copy the matched text of the parts of a reference and split nothing themselves.
  The matching functions below follow the grammar as the specification gives it,
  with whitespace skipped in front of every token:

  \<^verbatim>\<open>DenialConstraint ::= "\<not>" "(" PredicateList ")"\<close>
  \<^verbatim>\<open>PredicateList    ::= Predicate ("^" Predicate)*\<close>
  \<^verbatim>\<open>Predicate        ::= TupleRef Operator TupleRef\<close>
  \<^verbatim>\<open>TupleRef         ::= TupleId "." QualifiedName "." QualifiedName\<close>
  \<^verbatim>\<open>Operator         ::= "==" | "<>" | "<=" | ">=" | "<" | ">"\<close>
  \<^verbatim>\<open>TupleId          ::= "t" Digit+\<close>
  \<^verbatim>\<open>QualifiedName    ::= (Letter | Digit | "_" | "." | "-")+\<close>
\<close>

text \<open>
  Modelled from the spec: \<open>Digit\<close> and \<open>Letter\<close>, the decimal digits and the letters
  \<open>a\<close> to \<open>z\<close> and \<open>A\<close> to \<open>Z\<close>.
\<close>

definition isDigit :: "code_unit \<Rightarrow> bool" where
  "isDigit c = (0x30 \<le> c \<and> c \<le> 0x39)"

definition isLetter :: "code_unit \<Rightarrow> bool" where
  "isLetter c = ((0x41 \<le> c \<and> c \<le> 0x5A) \<or> (0x61 \<le> c \<and> c \<le> 0x7A))"

text \<open>
  Modelled from the spec: the characters of a \<open>QualifiedName\<close>, which are letters,
  digits, underscore, dot and hyphen.
\<close>

definition isNameChar :: "code_unit \<Rightarrow> bool" where
  "isNameChar c = (isLetter c \<or> isDigit c \<or> c = 0x5F \<or> c = 0x2E \<or> c = 0x2D)"

text \<open>
  Modelled from the spec: the whitespace that is skipped between tokens. The
  specification does not list its characters; they are taken to be space, tab, line
  feed and carriage return.
\<close>

definition isSpace :: "code_unit \<Rightarrow> bool" where
  "isSpace c = (c = 0x20 \<or> c = 0x09 \<or> c = 0x0A \<or> c = 0x0D)"

text \<open>Modelled from the spec: skipping the whitespace in front of a token.\<close>

definition skipSpaces :: "js_string \<Rightarrow> js_string" where
  "skipSpaces s = dropWhile isSpace s"

text \<open>
  Modelled from the spec: \<open>TupleId ::= "t" Digit+\<close>, the letter \<open>t\<close> and the longest
  run of digits behind it. The result is the matched text and the rest of the input.
\<close>

definition parseIdentifier :: "js_string \<Rightarrow> (js_string \<times> js_string) option" where
  "parseIdentifier s =
     (case s of
        [] \<Rightarrow> None
      | c # cs \<Rightarrow>
          if c = 0x74 \<and> takeWhile isDigit cs \<noteq> []
          then Some (c # takeWhile isDigit cs, dropWhile isDigit cs)
          else None)"

text \<open>
  Modelled from the spec: the anchoring rule of a tuple reference. The text behind the
  first dot is split at its last dot: the last dot-delimited segment is the column
  name, and everything before that dot, embedded dots included, is the table name.
  \<open>splitLastDot\<close> returns the text before and the text behind the last dot of its
  argument, and \<open>None\<close> when there is no dot.
\<close>

fun splitLastDot :: "js_string \<Rightarrow> (js_string \<times> js_string) option" where
  "splitLastDot [] = None"
| "splitLastDot (c # cs) =
     (case splitLastDot cs of
        Some (before, behind) \<Rightarrow> Some (c # before, behind)
      | None \<Rightarrow> if c = 0x2E then Some ([], cs) else None)"

text \<open>
  Modelled from the spec: \<open>TupleRef\<close>. A reference is one token \<open>tN.table.column\<close>
  without whitespace inside: the identifier, a dot, and the longest run of name
  characters, split by the anchoring rule into a table name and a column name that
  are both non-empty. The three fields are the matched text
  (\<open>sourceString\<close> in the action \<open>TupleRef\<close> of \<open>createSemantics\<close>).
\<close>

definition parseTupleRef :: "js_string \<Rightarrow> (TupleReference \<times> js_string) option" where
  "parseTupleRef s =
     (case parseIdentifier s of
        None \<Rightarrow> None
      | Some (ident, r) \<Rightarrow>
          (case r of
             [] \<Rightarrow> None
           | d # r' \<Rightarrow>
               if d \<noteq> 0x2E then None
               else
                 (case splitLastDot (takeWhile isNameChar r') of
                    None \<Rightarrow> None
                  | Some (tn, cn) \<Rightarrow>
                      if tn = [] \<or> cn = [] then None
                      else Some (\<lparr> tupleId = ident, tableName = tn, columnName = cn \<rparr>,
                                 dropWhile isNameChar r'))))"

text \<open>
  Modelled from the spec: \<open>Operator\<close>, the alternatives tried in the order of the
  grammar, so that \<open><>\<close> and \<open><=\<close> are tried before \<open><\<close>.
\<close>

definition parseOperator :: "js_string \<Rightarrow> (ComparisonOperator \<times> js_string) option" where
  "parseOperator s =
     (if prefix (str ''=='') s then Some (OpEq, drop 2 s)
      else if prefix (str ''<>'') s then Some (OpNe, drop 2 s)
      else if prefix (str ''<='') s then Some (OpLe, drop 2 s)
      else if prefix (str ''>='') s then Some (OpGe, drop 2 s)
      else if prefix (str ''<'') s then Some (OpLt, drop 1 s)
      else if prefix (str ''>'') s then Some (OpGt, drop 1 s)
      else None)"

text \<open>
  Modelled from the spec: \<open>Predicate\<close>, with whitespace skipped before each of its
  three tokens. The record is the one the action \<open>Predicate\<close> builds.
\<close>

definition parsePredicate :: "js_string \<Rightarrow> (Predicate \<times> js_string) option" where
  "parsePredicate s =
     (case parseTupleRef (skipSpaces s) of
        None \<Rightarrow> None
      | Some (l, r1) \<Rightarrow>
          (case parseOperator (skipSpaces r1) of
             None \<Rightarrow> None
           | Some (op, r2) \<Rightarrow>
               (case parseTupleRef (skipSpaces r2) of
                  None \<Rightarrow> None
                | Some (r, r3) \<Rightarrow>
                    Some (\<lparr> left = l, operator = op, right = r \<rparr>, r3))))"

text \<open>
  Modelled from the spec: the repetition \<open>("^" Predicate)*\<close> of \<open>PredicateList\<close>. The
  predicates are collected in the order of the text, as the action \<open>PredicateList\<close>
  pushes them. A caret that no predicate follows is a mismatch.
\<close>

function parsePredicateRest :: "js_string \<Rightarrow> (Predicate list \<times> js_string) option" where
  "parsePredicateRest s =
     (case skipSpaces s of
        [] \<Rightarrow> Some ([], [])
      | c # r \<Rightarrow>
          if c = 0x5E
          then (case parsePredicate r of
                  None \<Rightarrow> None
                | Some (p, r') \<Rightarrow>
                    (case parsePredicateRest r' of
                       None \<Rightarrow> None
                     | Some (ps, r'') \<Rightarrow> Some (p # ps, r'')))
          else Some ([], c # r))"
  by pat_completeness auto
termination
proof (relation "measure length")
  show "wf (measure length)" by simp
next
  fix s :: js_string and c r x p r'
  assume sk: "skipSpaces s = c # r" and pp: "parsePredicate r = Some x" and x: "(p, r') = x"
  have ident: "\<And>u a b. parseIdentifier u = Some (a, b) \<Longrightarrow> length b \<le> length u"
    by (auto simp: parseIdentifier_def length_dropWhile_le le_SucI split: list.splits if_splits)
  have ref: "\<And>u a b. parseTupleRef u = Some (a, b) \<Longrightarrow> length b \<le> length u"
  proof -
    fix u a b
    assume h: "parseTupleRef u = Some (a, b)"
    then obtain i w d w' where i: "parseIdentifier u = Some (i, w)" and w: "w = d # w'"
        and b: "b = dropWhile isNameChar w'"
      by (auto simp: parseTupleRef_def split: option.splits list.splits if_splits)
    have "length b \<le> length w'" unfolding b by (rule length_dropWhile_le)
    also have "\<dots> \<le> length w" unfolding w by simp
    also have "\<dots> \<le> length u" using i by (rule ident)
    finally show "length b \<le> length u" .
  qed
  have oper: "\<And>u a b. parseOperator u = Some (a, b) \<Longrightarrow> length b \<le> length u"
    by (auto simp: parseOperator_def split: if_splits)
  have sp: "\<And>u. length (skipSpaces u) \<le> length u"
    by (simp add: skipSpaces_def length_dropWhile_le)
  from pp x obtain l r1 op r2 where
      1: "parseTupleRef (skipSpaces r) = Some (l, r1)" and
      2: "parseOperator (skipSpaces r1) = Some (op, r2)" and
      3: "parseTupleRef (skipSpaces r2) = Some (fst (the (parseTupleRef (skipSpaces r2))), r')"
    by (auto simp: parsePredicate_def split: option.splits)
  have "length r' \<le> length (skipSpaces r2)" using 3 by (rule ref)
  also have "\<dots> \<le> length r2" by (rule sp)
  also have "\<dots> \<le> length (skipSpaces r1)" using 2 by (rule oper)
  also have "\<dots> \<le> length r1" by (rule sp)
  also have "\<dots> \<le> length (skipSpaces r)" using 1 by (rule ref)
  also have "\<dots> \<le> length r" by (rule sp)
  also have "\<dots> < length (skipSpaces s)" unfolding sk by simp
  also have "\<dots> \<le> length s" by (rule sp)
  finally show "(r', s) \<in> measure length" by simp
qed

declare parsePredicateRest.simps [simp del]

text \<open>
  Modelled from the spec: \<open>PredicateList\<close>, a first predicate and the repetition
  behind it.
\<close>

definition parsePredicateList :: "js_string \<Rightarrow> (Predicate list \<times> js_string) option" where
  "parsePredicateList s =
     (case parsePredicate s of
        None \<Rightarrow> None
      | Some (p, r) \<Rightarrow>
          (case parsePredicateRest r of
             None \<Rightarrow> None
           | Some (ps, r') \<Rightarrow> Some (p # ps, r')))"

text \<open>
  Modelled from the spec: \<open>DenialConstraint\<close>, the negation sign U+00AC, the
  parenthesised predicate list, and nothing but whitespace behind it. A mismatch is
  the error \<open>parse\<close> throws; no validation is called, as in the source.
\<close>

definition parse :: "js_string \<Rightarrow> error + DenialConstraint" where
  "parse dcString =
     (case skipSpaces dcString of
        [] \<Rightarrow> Inl SyntaxError
      | n # r0 \<Rightarrow>
          if n \<noteq> 0xAC then Inl SyntaxError
          else
            (case skipSpaces r0 of
               [] \<Rightarrow> Inl SyntaxError
             | lp # r1 \<Rightarrow>
                 if lp \<noteq> 0x28 then Inl SyntaxError
                 else
                   (case parsePredicateList r1 of
                      None \<Rightarrow> Inl SyntaxError
                    | Some (ps, r2) \<Rightarrow>
                        (case skipSpaces r2 of
                           [] \<Rightarrow> Inl SyntaxError
                         | rp # r3 \<Rightarrow>
                             if rp = 0x29 \<and> skipSpaces r3 = []
                             then Inr \<lparr> predicates = ps \<rparr>
                             else Inl SyntaxError))))"

section \<open>The entry point (index.ts)\<close>

definition transpileDC :: "js_string \<Rightarrow> TranspilerOptions \<Rightarrow> error + js_string" where
  "transpileDC dcString options =
     (let this = DCTranspiler options
      in case parse dcString of
           Inl e \<Rightarrow> Inl e
         | Inr dc \<Rightarrow>
             (case validate dc of
                Inl e \<Rightarrow> Inl e
              | Inr _ \<Rightarrow> transpile this dc))"

section \<open>Inputs used in the statements\<close>

text \<open>
  Modelled from the spec: the text of a tuple reference, its three fields joined by
  dots, and the references that are syntactically valid: the identifier is \<open>t\<close> and
  at least one digit, the table name is a non-empty \<open>QualifiedName\<close> (dots allowed),
  and the column name, the last dot-delimited segment, is a non-empty
  \<open>QualifiedName\<close> without a dot.
\<close>

definition refText :: "TupleReference \<Rightarrow> js_string" where
  "refText r = tupleId r @ [0x2E] @ tableName r @ [0x2E] @ columnName r"

definition validTupleRef :: "TupleReference \<Rightarrow> bool" where
  "validTupleRef r =
     ((case tupleId r of [] \<Rightarrow> False | c # ds \<Rightarrow> c = 0x74 \<and> ds \<noteq> [] \<and> list_all isDigit ds)
      \<and> tableName r \<noteq> [] \<and> list_all isNameChar (tableName r)
      \<and> columnName r \<noteq> [] \<and> list_all (\<lambda>c. isNameChar c \<and> c \<noteq> 0x2E) (columnName r))"

text \<open>A reference with the given identifier, table and column.\<close>

definition mkRef :: "string \<Rightarrow> string \<Rightarrow> string \<Rightarrow> TupleReference" where
  "mkRef i t c = \<lparr> tupleId = str i, tableName = str t, columnName = str c \<rparr>"

text \<open>The constraint of \<open>\<not>(t0.airport.Country==t1.airport.Country^t0.airport.Timezone<>t1.airport.Timezone)\<close>.\<close>

definition airportDC :: DenialConstraint where
  "airportDC =
     \<lparr> predicates =
        [ \<lparr> left = mkRef ''t0'' ''airport'' ''Country'', operator = OpEq,
            right = mkRef ''t1'' ''airport'' ''Country'' \<rparr>,
          \<lparr> left = mkRef ''t0'' ''airport'' ''Timezone'', operator = OpNe,
            right = mkRef ''t1'' ''airport'' ''Timezone'' \<rparr> ] \<rparr>"

text \<open>The constraint of \<open>\<not>(t0.A.X==t1.B.X)\<close>, over the two tables \<open>A\<close> and \<open>B\<close>.\<close>

definition twoTablesDC :: DenialConstraint where
  "twoTablesDC =
     \<lparr> predicates =
        [ \<lparr> left = mkRef ''t0'' ''A'' ''X'', operator = OpEq, right = mkRef ''t1'' ''B'' ''X'' \<rparr> ] \<rparr>"

text \<open>A constraint over the four aliases \<open>t2\<close>, \<open>t10\<close>, \<open>t1\<close> and \<open>t0\<close>, in this order.\<close>

definition aliasExample :: DenialConstraint where
  "aliasExample =
     \<lparr> predicates =
        [ \<lparr> left = mkRef ''t2'' ''T'' ''A'', operator = OpEq, right = mkRef ''t10'' ''T'' ''A'' \<rparr>,
          \<lparr> left = mkRef ''t1'' ''T'' ''B'', operator = OpLt, right = mkRef ''t0'' ''T'' ''B'' \<rparr> ] \<rparr>"

text \<open>The constraint with no predicate, which only a caller can build.\<close>

definition emptyDC :: DenialConstraint where
  "emptyDC = \<lparr> predicates = [] \<rparr>"

section \<open>Facts about the containers\<close>

lemma set_setAdd: "set (setAdd s x) = insert x (set s)"
  by (auto simp: setAdd_def)

lemma distinct_setAdd: "distinct s \<Longrightarrow> distinct (setAdd s x)"
  by (simp add: setAdd_def)

lemma foldl_setAdd_pairs:
  "foldl (\<lambda>acc p. setAdd (setAdd acc (f p)) (g p)) acc ps
     = foldl setAdd acc (concat (map (\<lambda>p. [f p, g p]) ps))"
  by (induction ps arbitrary: acc) simp_all

lemma set_foldl_setAdd: "set (foldl setAdd acc xs) = set acc \<union> set xs"
  by (induction xs arbitrary: acc) (auto simp: set_setAdd)

lemma distinct_foldl_setAdd: "distinct acc \<Longrightarrow> distinct (foldl setAdd acc xs)"
  by (induction xs arbitrary: acc) (simp_all add: distinct_setAdd)

lemma remdups_drop_member: "x \<in> set b \<Longrightarrow> remdups (a @ x # b) = remdups (a @ b)"
  by (induction a) auto

text \<open>
  Insertion into a set keeps the first occurrence of every element. \<open>remdups\<close> keeps
  the last one, so the first occurrences are \<open>rev (remdups (rev xs))\<close>.
\<close>

lemma foldl_setAdd_first:
  "distinct acc \<Longrightarrow> foldl setAdd acc xs = rev (remdups (rev (acc @ xs)))"
proof (induction xs arbitrary: acc)
  case Nil
  then show ?case by (simp add: distinct_remdups_id)
next
  case (Cons x xs)
  have d: "distinct (setAdd acc x)" using Cons.prems by (rule distinct_setAdd)
  show ?case
  proof (cases "x \<in> set acc")
    case True
    then have "remdups (rev xs @ x # rev acc) = remdups (rev xs @ rev acc)"
      by (intro remdups_drop_member) simp
    with True Cons.IH [OF d] show ?thesis by (simp add: setAdd_def)
  next
    case False
    with Cons.IH [OF d] show ?thesis by (simp add: setAdd_def)
  qed
qed

lemma foldl_push: "foldl (\<lambda>sel c. sel @ [f c]) sel cs = sel @ map f cs"
  by (induction cs arbitrary: sel) simp_all

lemma foldl_push_nested:
  "foldl (\<lambda>sel a. foldl (\<lambda>sel c. sel @ [f a c]) sel cs) sel as
     = sel @ concat (map (\<lambda>a. map (f a) cs) as)"
  by (induction as arbitrary: sel) (simp_all add: foldl_push)

lemma endsWith_suffix: "endsWith s p = suffix p s"
proof
  assume "endsWith s p"
  then have "s = take (length s - length p) s @ p"
    by (metis endsWith_def append_take_drop_id)
  then show "suffix p s" by (rule suffixI)
next
  assume "suffix p s"
  then obtain zs where "s = zs @ p" by (auto simp: suffix_def)
  then show "endsWith s p" by (simp add: endsWith_def)
qed

lemma slice_csv: "js_slice (b @ str ''.csv'') 0 (- 4) = b"
  by (simp add: js_slice_def Let_def str_def)

lemma hasSpecialChar_iff: "hasSpecialChar s = (0x2E \<in> set s \<or> 0x2D \<in> set s)"
  by (auto simp: hasSpecialChar_def)

section \<open>Facts about the transpiler\<close>

lemma buildSQLQuery_Cons:
  "predicates dc = p # ps \<Longrightarrow>
     buildSQLQuery this dc = Inr
         \<lparr> selectColumns = (if truthy (selectAllColumns this)
                             then map (\<lambda>alias. alias @ str ''.*'') (extractTupleAliases dc)
                             else buildSelectColumns dc (extractTupleAliases dc)),
           fromClause = buildFromClause (tableName (left p)) (extractTupleAliases dc),
           whereConditions = buildWhereConditions dc \<rparr>"
  by (simp add: buildSQLQuery_def extractTableName_def Let_def)

lemma buildSQLQuery_Nil: "predicates dc = [] \<Longrightarrow> buildSQLQuery this dc = Inl TypeError"
  by (simp add: buildSQLQuery_def extractTableName_def)

lemma cleanTableName_csv:
  "cleanTableName (b @ str ''.csv'')
     = (if 0x2E \<in> set b \<or> 0x2D \<in> set b then [0x22] @ b @ [0x22] else b)"
proof -
  have "endsWith (b @ str ''.csv'') (str ''.csv'')"
    by (simp add: endsWith_suffix suffix_def)
  then show ?thesis
    by (simp add: cleanTableName_def slice_csv hasSpecialChar_iff Let_def)
qed

lemma cleanTableName_other:
  "\<not> suffix (str ''.csv'') tn \<Longrightarrow>
   cleanTableName tn = (if 0x2E \<in> set tn \<or> 0x2D \<in> set tn then [0x22] @ tn @ [0x22] else tn)"
  by (simp add: cleanTableName_def endsWith_suffix hasSpecialChar_iff Let_def)

lemma from_hours:
  "buildFromClause (str ''hours'') [str ''t0'', str ''t1''] = str ''hours t0, hours t1''"
  by (simp add: buildFromClause_def cleanTableName_def endsWith_def hasSpecialChar_def
        str_def Let_def)

lemma convertOperator_cases:
  "convertOperator op
     = (if op = OpEq then str ''='' else if op = OpNe then str ''!='' else opText op)"
  by (cases op) simp_all

lemma set_extractTupleAliases:
  "set (extractTupleAliases dc)
     = (\<Union>p \<in> set (predicates dc). {tupleId (left p), tupleId (right p)})"
  by (simp add: extractTupleAliases_def Let_def foldl_setAdd_pairs set_foldl_setAdd)

lemma distinct_extractTupleAliases: "distinct (extractTupleAliases dc)"
  by (simp add: extractTupleAliases_def Let_def foldl_setAdd_pairs distinct_foldl_setAdd)

lemma sorted_extractTupleAliases: "sorted (extractTupleAliases dc)"
  by (simp add: extractTupleAliases_def Let_def)

lemma lex_sorted_extractTupleAliases:
  "sorted_wrt (\<lambda>a b. (a, b) \<in> lexord {(u, v). u < v}) (extractTupleAliases dc)"
proof -
  have "sorted_wrt (<) (extractTupleAliases dc)"
    using sorted_extractTupleAliases distinct_extractTupleAliases
    by (simp add: strict_sorted_iff)
  moreover have "(<) = (\<lambda>a b :: js_string. (a, b) \<in> lexord {(u, v). u < v})"
    by (simp add: fun_eq_iff list_less_def)
  ultimately show ?thesis
    by simp
qed

lemma aliasExample_aliases:
  "extractTupleAliases aliasExample = [str ''t0'', str ''t1'', str ''t10'', str ''t2'']"
  by (simp add: aliasExample_def mkRef_def extractTupleAliases_def setAdd_def str_def Let_def)

lemma validate_tableNames:
  assumes "foldl (\<lambda>tableNames pred.
              setAdd (setAdd tableNames (tableName (left pred))) (tableName (right pred)))
            [] ps = ts"
  shows "length ts = card (\<Union>p \<in> set ps. {tableName (left p), tableName (right p)})"
proof -
  have d: "distinct ts"
    and s: "set ts = (\<Union>p \<in> set ps. {tableName (left p), tableName (right p)})"
    using assms by (auto simp: foldl_setAdd_pairs distinct_foldl_setAdd set_foldl_setAdd)
  from d have "length ts = card (set ts)" by (simp add: distinct_card)
  with s show ?thesis by simp
qed

section \<open>Facts about the parser\<close>

lemma splitLastDot_no_dot: "0x2E \<notin> set s \<Longrightarrow> splitLastDot s = None"
  by (induction s) auto

lemma splitLastDot_last:
  "0x2E \<notin> set cn \<Longrightarrow> splitLastDot (tn @ 0x2E # cn) = Some (tn, cn)"
  by (induction tn) (simp_all add: splitLastDot_no_dot)

lemma takeWhile_until:
  "\<forall>x \<in> set xs. P x \<Longrightarrow> rest = [] \<or> \<not> P (hd rest) \<Longrightarrow> takeWhile P (xs @ rest) = xs"
  by (cases rest) (simp_all add: takeWhile_append2)

lemma dropWhile_until:
  "\<forall>x \<in> set xs. P x \<Longrightarrow> rest = [] \<or> \<not> P (hd rest) \<Longrightarrow> dropWhile P (xs @ rest) = rest"
  by (cases rest) (simp_all add: dropWhile_append2)

lemma not_digit_dot: "\<not> isDigit 0x2E"
  by (simp add: isDigit_def)

lemma parseIdentifier_ok:
  assumes "ds \<noteq> []" "\<forall>d \<in> set ds. isDigit d" "rest = [] \<or> \<not> isDigit (hd rest)"
  shows "parseIdentifier (0x74 # ds @ rest) = Some (0x74 # ds, rest)"
proof -
  have "takeWhile isDigit (ds @ rest) = ds" "dropWhile isDigit (ds @ rest) = rest"
    using assms(2,3) by (rule takeWhile_until, rule dropWhile_until)
  with assms(1) show ?thesis
    by (simp add: parseIdentifier_def)
qed

lemma parseTupleRef_ok:
  assumes ds: "ds \<noteq> []" "\<forall>d \<in> set ds. isDigit d"
    and tn: "tn \<noteq> []" "\<forall>c \<in> set tn. isNameChar c"
    and cn: "cn \<noteq> []" "\<forall>c \<in> set cn. isNameChar c \<and> c \<noteq> 0x2E"
    and rest: "rest = [] \<or> \<not> isNameChar (hd rest)"
  shows "parseTupleRef (0x74 # ds @ [0x2E] @ tn @ [0x2E] @ cn @ rest)
           = Some (\<lparr> tupleId = 0x74 # ds, tableName = tn, columnName = cn \<rparr>, rest)"
proof -
  let ?body = "tn @ 0x2E # cn"
  have i: "parseIdentifier (0x74 # ds @ (0x2E # ?body @ rest)) = Some (0x74 # ds, 0x2E # ?body @ rest)"
    using ds by (intro parseIdentifier_ok) (simp_all add: not_digit_dot)
  have b: "\<forall>c \<in> set ?body. isNameChar c"
    using tn cn by (auto simp: isNameChar_def)
  have t: "takeWhile isNameChar (tn @ 0x2E # cn @ rest) = ?body"
    using takeWhile_until [OF b rest] by simp
  have d: "dropWhile isNameChar (tn @ 0x2E # cn @ rest) = rest"
    using dropWhile_until [OF b rest] by simp
  have s: "splitLastDot ?body = Some (tn, cn)"
    using cn by (intro splitLastDot_last) auto
  have "parseTupleRef (0x74 # ds @ (0x2E # ?body @ rest))
           = Some (\<lparr> tupleId = 0x74 # ds, tableName = tn, columnName = cn \<rparr>, rest)"
    unfolding parseTupleRef_def i using tn(1) cn(1) by (simp add: t d s)
  then show ?thesis by simp
qed

lemma parseOperator_ok:
  "rest = [] \<or> (hd rest \<noteq> 0x3D \<and> hd rest \<noteq> 0x3E) \<Longrightarrow>
     parseOperator (opText op @ rest) = Some (op, rest)"
  by (cases op; cases rest) (simp_all add: parseOperator_def str_def)

lemma skipSpaces_id: "s = [] \<or> \<not> isSpace (hd s) \<Longrightarrow> skipSpaces s = s"
  by (cases s) (simp_all add: skipSpaces_def)

lemma opText_head: "\<exists>c cs. opText op = c # cs \<and> \<not> isNameChar c \<and> \<not> isSpace c"
  by (cases op) (simp_all add: str_def isNameChar_def isSpace_def isLetter_def isDigit_def)

lemma parseTupleRef_refText:
  assumes v: "validTupleRef r" and rest: "rest = [] \<or> \<not> isNameChar (hd rest)"
  shows "parseTupleRef (refText r @ rest) = Some (r, rest)"
proof -
  from v obtain ds where i: "tupleId r = 0x74 # ds" and ds: "ds \<noteq> []" "\<forall>d \<in> set ds. isDigit d"
    by (auto simp: validTupleRef_def list_all_iff split: list.splits)
  from v have tn: "tableName r \<noteq> []" "\<forall>c \<in> set (tableName r). isNameChar c"
    and cn: "columnName r \<noteq> []" "\<forall>c \<in> set (columnName r). isNameChar c \<and> c \<noteq> 0x2E"
    by (auto simp: validTupleRef_def list_all_iff)
  have "parseTupleRef (0x74 # ds @ [0x2E] @ tableName r @ [0x2E] @ columnName r @ rest)
      = Some (\<lparr> tupleId = 0x74 # ds, tableName = tableName r, columnName = columnName r \<rparr>, rest)"
    using ds tn cn rest by (rule parseTupleRef_ok)
  moreover have "\<lparr> tupleId = 0x74 # ds, tableName = tableName r, columnName = columnName r \<rparr> = r"
    using i by simp
  ultimately show ?thesis
    by (simp add: refText_def i)
qed

lemma refText_head: "validTupleRef r \<Longrightarrow> \<exists>cs. refText r = 0x74 # cs"
  by (auto simp: validTupleRef_def refText_def split: list.splits)

lemma not_space_t: "\<not> isSpace 0x74"
  by (simp add: isSpace_def)

lemma parsePredicate_refText:
  assumes l: "validTupleRef l" and r: "validTupleRef r"
    and rest: "rest = [] \<or> \<not> isNameChar (hd rest)"
  shows "parsePredicate (refText l @ opText op @ refText r @ rest)
           = Some (\<lparr> left = l, operator = op, right = r \<rparr>, rest)"
proof -
  obtain ls where ls: "refText l = 0x74 # ls" using refText_head [OF l] by blast
  obtain rs where rs: "refText r = 0x74 # rs" using refText_head [OF r] by blast
  obtain c cs where o: "opText op = c # cs" "\<not> isNameChar c" "\<not> isSpace c"
    using opText_head by blast
  have 1: "skipSpaces (refText l @ opText op @ refText r @ rest) = refText l @ opText op @ refText r @ rest"
    by (rule skipSpaces_id) (simp add: ls not_space_t)
  have 2: "parseTupleRef (refText l @ (opText op @ refText r @ rest)) = Some (l, opText op @ refText r @ rest)"
    using l by (rule parseTupleRef_refText) (simp add: o)
  have 3: "skipSpaces (opText op @ refText r @ rest) = opText op @ refText r @ rest"
    by (rule skipSpaces_id) (simp add: o)
  have 4: "parseOperator (opText op @ (refText r @ rest)) = Some (op, refText r @ rest)"
    by (rule parseOperator_ok) (simp add: rs)
  have 5: "skipSpaces (refText r @ rest) = refText r @ rest"
    by (rule skipSpaces_id) (simp add: rs not_space_t)
  have 6: "parseTupleRef (refText r @ rest) = Some (r, rest)"
    using r rest by (rule parseTupleRef_refText)
  show ?thesis
    unfolding parsePredicate_def 1 by (simp add: 2 3 4 5 6)
qed

lemma parse_single_predicate:
  assumes l: "validTupleRef l" and r: "validTupleRef r"
  shows "parse ([0xAC, 0x28] @ refText l @ opText op @ refText r @ [0x29])
           = Inr \<lparr> predicates = [\<lparr> left = l, operator = op, right = r \<rparr>] \<rparr>"
proof -
  have p: "parsePredicate (refText l @ opText op @ refText r @ [0x29])
           = Some (\<lparr> left = l, operator = op, right = r \<rparr>, [0x29])"
    using l r by (rule parsePredicate_refText) (simp add: isNameChar_def isLetter_def isDigit_def)
  have t: "parsePredicateRest [0x29] = Some ([], [0x29])"
    by (simp add: parsePredicateRest.simps skipSpaces_def isSpace_def)
  have pl: "parsePredicateList (refText l @ opText op @ refText r @ [0x29])
           = Some ([\<lparr> left = l, operator = op, right = r \<rparr>], [0x29])"
    by (simp add: parsePredicateList_def p t)
  show ?thesis
    by (simp add: parse_def skipSpaces_def isSpace_def pl)
qed

section \<open>The claims\<close>

text \<open>
  C1. The input \<open>\<not>(t0.airport.Country==t1.airport.Country^t0.airport.Timezone<>t1.airport.Timezone)\<close>
  parses into the constraint \<open>airportDC\<close>, which validates, and transpiling it with
  \<open>formatOutput\<close> set to false and the other options left to their defaults gives
  exactly the one-line statement
  \<open>SELECT t0.Country, t0.Timezone, t1.Country, t1.Timezone FROM airport t0, airport t1
  WHERE t0.Country = t1.Country AND t0.Timezone != t1.Timezone;\<close>.
  The last conjunct is the same run through the entry point \<open>transpileDC\<close>.
\<close>

theorem end_to_end_airport:
  "parse (0xAC # str ''(t0.airport.Country==t1.airport.Country^t0.airport.Timezone<>t1.airport.Timezone)'')
     = Inr airportDC
   \<and> validate airportDC = Inr True
   \<and> transpile (DCTranspiler (noOptions \<lparr> formatOutput := Some False \<rparr>)) airportDC
     = Inr (str ''SELECT t0.Country, t0.Timezone, t1.Country, t1.Timezone FROM airport t0, airport t1 WHERE t0.Country = t1.Country AND t0.Timezone != t1.Timezone;'')
   \<and> transpileDC
       (0xAC # str ''(t0.airport.Country==t1.airport.Country^t0.airport.Timezone<>t1.airport.Timezone)'')
       (noOptions \<lparr> formatOutput := Some False \<rparr>)
     = Inr (str ''SELECT t0.Country, t0.Timezone, t1.Country, t1.Timezone FROM airport t0, airport t1 WHERE t0.Country = t1.Country AND t0.Timezone != t1.Timezone;'')"
  by code_simp

text \<open>
  C2. For every syntactically valid tuple reference, with or without dots inside the
  table name, the parser returns the reference whose \<open>tupleId\<close> is the first
  dot-delimited segment of the text, whose \<open>columnName\<close> is the last one, and whose
  \<open>tableName\<close> is everything in between, embedded dots included: the reference is
  read back from its text \<open>refText\<close>, whatever follows it that is no name character,
  and \<open>parse\<close> returns it on either side of a predicate.
\<close>

theorem parse_anchors_tuple_reference:
  assumes "validTupleRef l" and "validTupleRef r" and "rest = [] \<or> \<not> isNameChar (hd rest)"
  shows "parseTupleRef (refText l @ rest) = Some (l, rest)
     \<and> parse ([0xAC, 0x28] @ refText l @ opText op @ refText r @ [0x29])
         = Inr \<lparr> predicates = [\<lparr> left = l, operator = op, right = r \<rparr>] \<rparr>"
proof
  show "parseTupleRef (refText l @ rest) = Some (l, rest)"
    using assms(1,3) by (rule parseTupleRef_refText)
  show "parse ([0xAC, 0x28] @ refText l @ opText op @ refText r @ [0x29])
         = Inr \<lparr> predicates = [\<lparr> left = l, operator = op, right = r \<rparr>] \<rparr>"
    using assms(1,2) by (rule parse_single_predicate)
qed

theorem parse_anchors_tuple_reference_witness:
  "parseTupleRef (str ''t1.WDC_planets.csv.Mass'')
     = Some (\<lparr> tupleId = str ''t1'', tableName = str ''WDC_planets.csv'',
               columnName = str ''Mass'' \<rparr>, [])
   \<and> parse (0xAC # str ''(t1.WDC_planets.csv.Mass>=t0.WDC_planets.csv.Mass)'')
     = Inr \<lparr> predicates =
         [\<lparr> left = \<lparr> tupleId = str ''t1'', tableName = str ''WDC_planets.csv'',
                      columnName = str ''Mass'' \<rparr>,
            operator = OpGe,
            right = \<lparr> tupleId = str ''t0'', tableName = str ''WDC_planets.csv'',
                       columnName = str ''Mass'' \<rparr> \<rparr>] \<rparr>"
proof -
  have l: "validTupleRef (mkRef ''t1'' ''WDC_planets.csv'' ''Mass'')"
    by (simp add: validTupleRef_def mkRef_def str_def isNameChar_def isLetter_def isDigit_def)
  have r: "validTupleRef (mkRef ''t0'' ''WDC_planets.csv'' ''Mass'')"
    by (simp add: validTupleRef_def mkRef_def str_def isNameChar_def isLetter_def isDigit_def)
  have e: "([] :: js_string) = [] \<or> \<not> isNameChar (hd [])"
    by simp
  show ?thesis
    using parse_anchors_tuple_reference [OF l r e, of OpGe]
    by (simp add: refText_def mkRef_def str_def)
qed

text \<open>
  C3. For every constraint, \<open>validate\<close> fails with a well-formedness error exactly
  when there is no predicate or the number of distinct table names over the left and
  right references of all predicates is not one, and it returns \<open>true\<close> exactly in the
  other case. \<open>validate\<close> only reads its argument: its result is the error or the
  boolean, and the constraint is the same value after the call.
\<close>

theorem validate_single_table:
  "(\<exists>m. validate dc = Inl (WellFormednessError m))
      = (predicates dc = []
         \<or> card (\<Union>p \<in> set (predicates dc). {tableName (left p), tableName (right p)}) \<noteq> 1)
   \<and> (validate dc = Inr True)
      = (predicates dc \<noteq> []
         \<and> card (\<Union>p \<in> set (predicates dc). {tableName (left p), tableName (right p)}) = 1)"
  by (simp add: validate_def Let_def validate_tableNames)

theorem validate_single_table_witness:
  "(\<exists>m. validate twoTablesDC = Inl (WellFormednessError m))
   \<and> (\<exists>m. validate emptyDC = Inl (WellFormednessError m))
   \<and> validate airportDC = Inr True"
  using validate_single_table [of twoTablesDC] validate_single_table [of emptyDC]
    validate_single_table [of airportDC]
  by (simp add: twoTablesDC_def emptyDC_def airportDC_def mkRef_def str_def)

text \<open>
  C4. \<open>parse\<close> does no single-table validation: the input \<open>\<not>(t0.A.X==t1.B.X)\<close> over
  the two tables \<open>A\<close> and \<open>B\<close> parses into a constraint with one predicate, and it is
  the call of \<open>validate\<close> on that constraint that fails, with the well-formedness
  error about the tables.
\<close>

theorem parse_without_validation:
  "parse (0xAC # str ''(t0.A.X==t1.B.X)'') = Inr twoTablesDC
   \<and> length (predicates twoTablesDC) = 1
   \<and> validate twoTablesDC
       = Inl (WellFormednessError (str ''All predicates must reference the same table''))"
  by code_simp

text \<open>
  C5. For every constraint, the tuple aliases are the distinct \<open>tupleId\<close> values of the
  left and right references of all predicates, in strictly ascending lexicographic
  order of their code units, and these are the aliases of the FROM clause and of
  the SELECT list of the query that \<open>transpile\<close> serialises for a constraint with a
  predicate. The order is not numeric: the aliases
  \<open>t2\<close>, \<open>t10\<close>, \<open>t1\<close>, \<open>t0\<close> of \<open>aliasExample\<close> come out as \<open>t0\<close>, \<open>t1\<close>, \<open>t10\<close>, \<open>t2\<close>.
\<close>

theorem tuple_aliases_lexicographic:
  "sorted_wrt (\<lambda>a b. (a, b) \<in> lexord {(u, v). u < v}) (extractTupleAliases dc)
   \<and> set (extractTupleAliases dc)
       = (\<Union>p \<in> set (predicates dc). {tupleId (left p), tupleId (right p)})
   \<and> (\<forall>p ps. predicates dc = p # ps \<longrightarrow>
         (\<exists>q. buildSQLQuery this dc = Inr q
            \<and> fromClause q = js_join (str '', '')
                  (map (\<lambda>alias. cleanTableName (tableName (left p)) @ str '' '' @ alias)
                       (extractTupleAliases dc))
            \<and> selectColumns q =
                 (if truthy (selectAllColumns this)
                  then map (\<lambda>alias. alias @ str ''.*'') (extractTupleAliases dc)
                  else buildSelectColumns dc (extractTupleAliases dc))
            \<and> transpile this dc = Inr (formatSQL this q dc)))
   \<and> extractTupleAliases aliasExample = [str ''t0'', str ''t1'', str ''t10'', str ''t2'']"
  by (simp add: lex_sorted_extractTupleAliases set_extractTupleAliases buildSQLQuery_Cons
        transpile_def buildFromClause_def Let_def aliasExample_aliases)

theorem tuple_aliases_lexicographic_witness:
  "\<exists>q. buildSQLQuery (DCTranspiler noOptions) aliasExample = Inr q
     \<and> fromClause q = str ''T t0, T t1, T t10, T t2''
     \<and> selectColumns q = [str ''t0.A'', str ''t0.B'', str ''t1.A'', str ''t1.B'',
                            str ''t10.A'', str ''t10.B'', str ''t2.A'', str ''t2.B'']"
proof -
  have a: "extractTupleAliases aliasExample = [str ''t0'', str ''t1'', str ''t10'', str ''t2'']"
    using tuple_aliases_lexicographic [of aliasExample "DCTranspiler noOptions"] by blast
  have c: "cleanTableName (str ''T'') = str ''T''"
    by (simp add: cleanTableName_def endsWith_def hasSpecialChar_def str_def Let_def)
  have s: "buildSelectColumns aliasExample [str ''t0'', str ''t1'', str ''t10'', str ''t2'']
        = [str ''t0.A'', str ''t0.B'', str ''t1.A'', str ''t1.B'',
           str ''t10.A'', str ''t10.B'', str ''t2.A'', str ''t2.B'']"
    by (simp add: buildSelectColumns_def aliasExample_def mkRef_def setAdd_def str_def Let_def)
  have t: "\<not> truthy (selectAllColumns (DCTranspiler noOptions))"
    by (simp add: DCTranspiler_def noOptions_def)
  have "\<exists>p ps. predicates aliasExample = p # ps \<and> tableName (left p) = str ''T''"
    by (simp add: aliasExample_def mkRef_def)
  then obtain p ps where pp: "predicates aliasExample = p # ps" "tableName (left p) = str ''T''"
    by blast
  from tuple_aliases_lexicographic [of aliasExample "DCTranspiler noOptions"] pp(1)
  obtain q where q: "buildSQLQuery (DCTranspiler noOptions) aliasExample = Inr q"
      "fromClause q = js_join (str '', '')
                  (map (\<lambda>alias. cleanTableName (tableName (left p)) @ str '' '' @ alias)
                       (extractTupleAliases aliasExample))"
      "selectColumns q =
                 (if truthy (selectAllColumns (DCTranspiler noOptions))
                  then map (\<lambda>alias. alias @ str ''.*'') (extractTupleAliases aliasExample)
                  else buildSelectColumns aliasExample (extractTupleAliases aliasExample))"
    by blast
  have f: "fromClause q = str ''T t0, T t1, T t10, T t2''"
    unfolding q(2) pp(2) a c by (simp add: str_def)
  have "selectColumns q = [str ''t0.A'', str ''t0.B'', str ''t1.A'', str ''t1.B'',
           str ''t10.A'', str ''t10.B'', str ''t2.A'', str ''t2.B'']"
    unfolding q(3) a s using t by simp
  with q(1) f show ?thesis by blast
qed

text \<open>
  C6. For every constraint, the WHERE conditions are one per predicate, in the order
  of the predicates, each the text \<open>leftTupleId.leftColumn SQLOP rightTupleId.rightColumn\<close>,
  where \<open>SQLOP\<close> is \<open>=\<close> for \<open>==\<close>, \<open>!=\<close> for \<open><>\<close>, and the operator's own text for
  \<open><\<close>, \<open><=\<close>, \<open>>\<close> and \<open>>=\<close>; and they are the conditions of the query that
  \<open>transpile\<close> serialises for a constraint with a predicate.
\<close>

theorem where_conditions_per_predicate:
  "buildWhereConditions dc =
     map (\<lambda>p. tupleId (left p) @ str ''.'' @ columnName (left p) @ str '' ''
                @ (if operator p = OpEq then str ''=''
                   else if operator p = OpNe then str ''!='' else opText (operator p))
                @ str '' '' @ tupleId (right p) @ str ''.'' @ columnName (right p))
         (predicates dc)
   \<and> length (buildWhereConditions dc) = length (predicates dc)
   \<and> (\<forall>p ps. predicates dc = p # ps \<longrightarrow>
         (\<exists>q. buildSQLQuery this dc = Inr q \<and> whereConditions q = buildWhereConditions dc
            \<and> transpile this dc = Inr (formatSQL this q dc)))"
  by (simp add: buildWhereConditions_def predicateToSQL_def convertOperator_cases Let_def
        buildSQLQuery_Cons transpile_def)

theorem where_conditions_per_predicate_witness:
  "buildWhereConditions airportDC
     = [str ''t0.Country = t1.Country'', str ''t0.Timezone != t1.Timezone'']
   \<and> (\<exists>q. buildSQLQuery (DCTranspiler noOptions) airportDC = Inr q
         \<and> whereConditions q
             = [str ''t0.Country = t1.Country'', str ''t0.Timezone != t1.Timezone''])"
proof -
  have w: "buildWhereConditions airportDC
     = [str ''t0.Country = t1.Country'', str ''t0.Timezone != t1.Timezone'']"
    using where_conditions_per_predicate [of airportDC "DCTranspiler noOptions"]
    by (simp add: airportDC_def mkRef_def str_def)
  have "\<exists>p ps. predicates airportDC = p # ps"
    by (simp add: airportDC_def)
  with where_conditions_per_predicate [of airportDC "DCTranspiler noOptions"]
  have "\<exists>q. buildSQLQuery (DCTranspiler noOptions) airportDC = Inr q
         \<and> whereConditions q = buildWhereConditions airportDC"
    by blast
  with w show ?thesis by simp
qed

text \<open>
  C7. A table name that ends with \<open>.csv\<close> loses that suffix, any other name is kept;
  the result is wrapped in double quotes (code unit \<open>0x22\<close>) when it has a dot
  (\<open>0x2E\<close>) or a hyphen (\<open>0x2D\<close>) and is emitted as it is otherwise. The FROM clause
  of the query that \<open>transpile\<close> serialises is the cleaned name followed by each
  alias, joined by commas, for the table of the first predicate's left reference;
  for the table \<open>hours\<close> and the aliases \<open>t0\<close>, \<open>t1\<close> it is \<open>hours t0, hours t1\<close>.
\<close>

theorem table_name_cleaning:
  "cleanTableName (b @ str ''.csv'')
     = (if 0x2E \<in> set b \<or> 0x2D \<in> set b then [0x22] @ b @ [0x22] else b)
   \<and> (\<not> suffix (str ''.csv'') tn \<longrightarrow>
        cleanTableName tn
          = (if 0x2E \<in> set tn \<or> 0x2D \<in> set tn then [0x22] @ tn @ [0x22] else tn))
   \<and> buildFromClause tn aliases
       = js_join (str '', '') (map (\<lambda>alias. cleanTableName tn @ str '' '' @ alias) aliases)
   \<and> (\<forall>p ps. predicates dc = p # ps \<longrightarrow>
         (\<exists>q. buildSQLQuery this dc = Inr q
            \<and> fromClause q = buildFromClause (tableName (left p)) (extractTupleAliases dc)
            \<and> transpile this dc = Inr (formatSQL this q dc)))
   \<and> buildFromClause (str ''hours'') [str ''t0'', str ''t1''] = str ''hours t0, hours t1''"
proof (intro conjI allI impI)
  show "cleanTableName (b @ str ''.csv'')
     = (if 0x2E \<in> set b \<or> 0x2D \<in> set b then [0x22] @ b @ [0x22] else b)"
    by (rule cleanTableName_csv)
  show "cleanTableName tn
          = (if 0x2E \<in> set tn \<or> 0x2D \<in> set tn then [0x22] @ tn @ [0x22] else tn)"
    if "\<not> suffix (str ''.csv'') tn"
    using that by (rule cleanTableName_other)
  show "buildFromClause tn aliases
       = js_join (str '', '') (map (\<lambda>alias. cleanTableName tn @ str '' '' @ alias) aliases)"
    by (simp add: buildFromClause_def Let_def)
  show "\<exists>q. buildSQLQuery this dc = Inr q
            \<and> fromClause q = buildFromClause (tableName (left p)) (extractTupleAliases dc)
            \<and> transpile this dc = Inr (formatSQL this q dc)"
    if "predicates dc = p # ps" for p ps
    using that by (simp add: buildSQLQuery_Cons transpile_def)
  show "buildFromClause (str ''hours'') [str ''t0'', str ''t1''] = str ''hours t0, hours t1''"
    by (rule from_hours)
qed

theorem table_name_cleaning_witness:
  "cleanTableName (str ''WDC_planets.csv'') = str ''WDC_planets''
   \<and> cleanTableName (str ''my-data.csv'') = [0x22] @ str ''my-data'' @ [0x22]
   \<and> cleanTableName (str ''a.b'') = [0x22] @ str ''a.b'' @ [0x22]
   \<and> cleanTableName (str ''hours'') = str ''hours''
   \<and> (\<exists>q. buildSQLQuery (DCTranspiler noOptions) airportDC = Inr q
         \<and> fromClause q = str ''airport t0, airport t1'')"
proof -
  have 1: "cleanTableName (str ''WDC_planets.csv'') = str ''WDC_planets''"
    using table_name_cleaning [of "str ''WDC_planets''"] by (simp add: str_def)
  have 2: "cleanTableName (str ''my-data.csv'') = [0x22] @ str ''my-data'' @ [0x22]"
    using table_name_cleaning [of "str ''my-data''"] by (simp add: str_def)
  have 3: "cleanTableName (str ''a.b'') = [0x22] @ str ''a.b'' @ [0x22]"
    using table_name_cleaning [of _ "str ''a.b''"] by (simp add: str_def suffix_def)
  have 4: "cleanTableName (str ''hours'') = str ''hours''"
    using table_name_cleaning [of _ "str ''hours''"] by (simp add: str_def suffix_def)
  have "\<exists>p ps. predicates airportDC = p # ps \<and> tableName (left p) = str ''airport''"
    by (simp add: airportDC_def mkRef_def)
  then obtain p ps where pp: "predicates airportDC = p # ps" "tableName (left p) = str ''airport''"
    by blast
  from table_name_cleaning [of _ _ _ airportDC "DCTranspiler noOptions"] pp(1)
  obtain q where q: "buildSQLQuery (DCTranspiler noOptions) airportDC = Inr q"
     "fromClause q = buildFromClause (tableName (left p)) (extractTupleAliases airportDC)"
    by blast
  have "extractTupleAliases airportDC = [str ''t0'', str ''t1'']"
    by (simp add: airportDC_def mkRef_def extractTupleAliases_def setAdd_def str_def Let_def)
  moreover have "buildFromClause (str ''airport'') [str ''t0'', str ''t1''] = str ''airport t0, airport t1''"
    by (simp add: buildFromClause_def cleanTableName_def endsWith_def hasSpecialChar_def
        str_def Let_def)
  ultimately have "fromClause q = str ''airport t0, airport t1''"
    using q(2) pp(2) by simp
  with q(1) 1 2 3 4 show ?thesis by blast
qed

text \<open>
  C8. For every constraint, the SELECT list built for a list of aliases is
  \<open>alias.column\<close> for every alias in the order given, and for each alias every
  distinct column name of the predicates in the order of first appearance (left
  reference, then right reference, predicate by predicate), so all columns of one
  alias come before any column of the next. When \<open>selectAllColumns\<close> is false this
  is the SELECT list of the query that \<open>transpile\<close> serialises, built for the sorted
  aliases.
  \<open>remdups\<close> keeps the last occurrence of an element, so \<open>rev (remdups (rev xs))\<close>
  is \<open>xs\<close> with every occurrence but the first removed.
\<close>

theorem select_columns_alias_major:
  "buildSelectColumns dc aliases =
     concat (map (\<lambda>alias. map (\<lambda>col. alias @ str ''.'' @ col)
        (rev (remdups (rev (concat (map (\<lambda>p. [columnName (left p), columnName (right p)])
                                      (predicates dc)))))))
        aliases)
   \<and> (\<forall>p ps. predicates dc = p # ps \<and> \<not> truthy (selectAllColumns this) \<longrightarrow>
         (\<exists>q. buildSQLQuery this dc = Inr q
            \<and> selectColumns q = buildSelectColumns dc (extractTupleAliases dc)
            \<and> transpile this dc = Inr (formatSQL this q dc)))"
proof (intro conjI allI impI)
  have "foldl (\<lambda>columns pred.
            setAdd (setAdd columns (columnName (left pred))) (columnName (right pred)))
          [] (predicates dc)
        = rev (remdups (rev (concat (map (\<lambda>p. [columnName (left p), columnName (right p)])
                                      (predicates dc)))))"
    by (simp add: foldl_setAdd_pairs foldl_setAdd_first)
  then show "buildSelectColumns dc aliases =
     concat (map (\<lambda>alias. map (\<lambda>col. alias @ str ''.'' @ col)
        (rev (remdups (rev (concat (map (\<lambda>p. [columnName (left p), columnName (right p)])
                                      (predicates dc)))))))
        aliases)"
    unfolding buildSelectColumns_def Let_def by (simp only: foldl_push_nested append_Nil)
  show "\<exists>q. buildSQLQuery this dc = Inr q
            \<and> selectColumns q = buildSelectColumns dc (extractTupleAliases dc)
            \<and> transpile this dc = Inr (formatSQL this q dc)"
    if "predicates dc = p # ps \<and> \<not> truthy (selectAllColumns this)" for p ps
    using that by (simp add: buildSQLQuery_Cons transpile_def)
qed

theorem select_columns_alias_major_witness:
  "buildSelectColumns airportDC [str ''t0'', str ''t1'']
     = [str ''t0.Country'', str ''t0.Timezone'', str ''t1.Country'', str ''t1.Timezone'']
   \<and> (\<exists>q. buildSQLQuery (DCTranspiler noOptions) airportDC = Inr q
         \<and> selectColumns q
             = [str ''t0.Country'', str ''t0.Timezone'', str ''t1.Country'', str ''t1.Timezone''])"
proof -
  have s: "buildSelectColumns airportDC [str ''t0'', str ''t1'']
     = [str ''t0.Country'', str ''t0.Timezone'', str ''t1.Country'', str ''t1.Timezone'']"
    using select_columns_alias_major [of airportDC "[str ''t0'', str ''t1'']"]
    by (simp add: airportDC_def mkRef_def str_def)
  have a: "extractTupleAliases airportDC = [str ''t0'', str ''t1'']"
    by (simp add: airportDC_def mkRef_def extractTupleAliases_def setAdd_def str_def Let_def)
  have "\<exists>p ps. predicates airportDC = p # ps \<and> \<not> truthy (selectAllColumns (DCTranspiler noOptions))"
    by (simp add: airportDC_def DCTranspiler_def noOptions_def)
  with select_columns_alias_major [of airportDC _ "DCTranspiler noOptions"]
  have "\<exists>q. buildSQLQuery (DCTranspiler noOptions) airportDC = Inr q
         \<and> selectColumns q = buildSelectColumns airportDC (extractTupleAliases airportDC)"
    by blast
  with s a show ?thesis by simp
qed

text \<open>
  C9. With \<open>includeComments\<close> the output of the code begins with the comment block,
  and the second comment line renders the constraint without table names, but the
  text between \<open>Generated from: \<close> and the parenthesis is the two code units U+00C2
  U+00AC and not the single negation sign U+00AC: on the first example of the
  repository the output is the one below and differs from the one with the single
  sign.
\<close>

theorem comment_negation_sign_two_code_units:
  "transpileDC
      (0xAC # str ''(t0.hours.EmpID==t1.hours.EmpID^t0.hours.ProjID==t1.hours.ProjID)'')
      (noOptions \<lparr> includeComments := Some True \<rparr>)
     = Inr (js_join [0x0A]
         [ str ''-- Denial Constraint Violation Query'',
           str ''-- Generated from: '' @ [0xC2, 0xAC]
             @ str ''(t0.EmpID == t1.EmpID ^ t0.ProjID == t1.ProjID)'',
           [],
           str ''SELECT'',
           str ''  t0.EmpID,'',
           str ''  t0.ProjID,'',
           str ''  t1.EmpID,'',
           str ''  t1.ProjID'',
           str ''FROM'',
           str ''  hours t0, hours t1'',
           str ''WHERE'',
           str ''  t0.EmpID = t1.EmpID'',
           str ''  AND t0.ProjID = t1.ProjID'',
           str '';'' ])
   \<and> transpileDC
      (0xAC # str ''(t0.hours.EmpID==t1.hours.EmpID^t0.hours.ProjID==t1.hours.ProjID)'')
      (noOptions \<lparr> includeComments := Some True \<rparr>)
     \<noteq> Inr (js_join [0x0A]
         [ str ''-- Denial Constraint Violation Query'',
           str ''-- Generated from: '' @ [0xAC]
             @ str ''(t0.EmpID == t1.EmpID ^ t0.ProjID == t1.ProjID)'',
           [],
           str ''SELECT'',
           str ''  t0.EmpID,'',
           str ''  t0.ProjID,'',
           str ''  t1.EmpID,'',
           str ''  t1.ProjID'',
           str ''FROM'',
           str ''  hours t0, hours t1'',
           str ''WHERE'',
           str ''  t0.EmpID = t1.EmpID'',
           str ''  AND t0.ProjID = t1.ProjID'',
           str '';'' ])"
  by code_simp

text \<open>
  C10. \<open>transpile\<close> checks nothing about the number of predicates: reading the table
  name of \<open>predicates[0]\<close> fails exactly when the constraint has no predicate, this
  is the one failure of \<open>transpile\<close>, and \<open>transpile\<close> returns a statement exactly
  when there is a predicate.
\<close>

theorem transpile_fails_iff_no_predicate:
  "(extractTableName dc = Inl TypeError) = (predicates dc = [])
   \<and> (transpile this dc = Inl TypeError) = (predicates dc = [])
   \<and> (\<exists>sql. transpile this dc = Inr sql) = (predicates dc \<noteq> [])"
proof (cases "predicates dc")
  case Nil
  then show ?thesis
    by (simp add: transpile_def buildSQLQuery_Nil extractTableName_def)
next
  case (Cons p ps)
  then show ?thesis
    by (simp add: transpile_def buildSQLQuery_Cons extractTableName_def)
qed

theorem transpile_fails_iff_no_predicate_witness:
  "extractTableName emptyDC = Inl TypeError
   \<and> transpile (DCTranspiler noOptions) emptyDC = Inl TypeError
   \<and> (\<exists>sql. transpile (DCTranspiler noOptions) twoTablesDC = Inr sql)"
  using transpile_fails_iff_no_predicate [of emptyDC "DCTranspiler noOptions"]
    transpile_fails_iff_no_predicate [of twoTablesDC "DCTranspiler noOptions"]
  by (simp add: emptyDC_def twoTablesDC_def)

end
